theory Spec2Isabelle
  imports Main
begin

section \<open>Data model\<close>

text \<open>
  The classes \<open>CallState\<close> and \<open>CallStopReason\<close> of \<open>_implement_call.py\<close>
  (string constants, used as enumerations).
\<close>

datatype CallState = DIALING | RINGING | TRYING | ANSWERED | ENDED

datatype CallStopReason = SIP_ERROR | BYE_FROM_PBX | BYE_FROM_LOCAL

text \<open>
  Modelled from the spec: \<open>SIP/sip_factory.py\<close> (\<open>SIPMessage\<close>, \<open>SIPStatus\<close>,
  \<open>SIPMessageType\<close>) and \<open>media/media.py\<close> (\<open>TransmitType\<close>) are not among the
  sources. A signaling message carries its kind (request or response), its
  method (\<open>msg_method\<close>) or status, the headers \<open>Call-ID\<close> and \<open>CSeq.method\<close>, and a body with the session id
  (\<open>body['o']['id']\<close>) and the first media port (\<open>body['m'][0]['port']\<close>); these are the
  only parts the handlers read. A message is taken to be well formed, so reading one of
  these parts does not fail.
\<close>

datatype SIPMessageType = MESSAGE | RESPONSE

datatype SIPStatus =
    ST_TRYING
  | ST_OK
  | ST_NOT_FOUND
  | ST_SERVICE_UNAVAILABLE
  | ST_UNAUTHORIZED
  | ST_PROXY_AUTHENTICATION_REQUIRED
  | ST_OTHER nat

datatype TransmitType = SENDRECV | SENDONLY | RECVONLY

record SIPMessage =
  msg_type :: SIPMessageType
  msg_method :: string
  status :: SIPStatus
  hdr_call_id :: string
  hdr_cseq_method :: string
  body_o_id :: string
  body_m0_port :: nat

text \<open>
  Every \<open>raise\<close> of the two modules, and the \<open>KeyError\<close> of a lookup \<open>call_data[k]\<close>
  whose key was never stored. The messages of the source are not ASCII; each
  constructor names the place that raises.
  \<^item> \<open>InvalidTeardownStateError\<close>: \<open>RuntimeError('Unknown _Call._stop() caller')\<close>;
  \<^item> \<open>StopReasonError\<close>: the \<open>Exception\<close> at the end of the local branch of \<open>_stop\<close>;
  \<^item> \<open>AuthenticationFailedError\<close>: the \<open>RuntimeError\<close> of \<open>_handle_unauthorized\<close>;
  \<^item> \<open>ProtocolSequenceError\<close>: the \<open>Exception\<close> of \<open>_handle_OK\<close>;
  \<^item> \<open>AlreadyPlacedError\<close>: the \<open>Exception\<close> of \<open>_new_call\<close>;
  \<^item> \<open>UnhandledEventError\<close>: the two \<open>RuntimeError\<close>s of \<open>Phone._callback\<close>;
  \<^item> \<open>TeardownTimeoutError\<close>, \<open>UnknownCallError\<close>: \<open>try_wait\<close> giving up with
    \<open>raise_after_time=True\<close>, in \<open>_stop\<close> and in \<open>Phone._callback\<close>.
\<close>

datatype exn =
    KeyError string
  | InvalidTeardownStateError
  | StopReasonError
  | AuthenticationFailedError
  | ProtocolSequenceError
  | AlreadyPlacedError
  | UnhandledEventError
  | TeardownTimeoutError
  | UnknownCallError

text \<open>
  What a call does to its collaborators, in program order: the calls on the
  \<open>sip_manager\<close> (\<open>send_invite\<close>, \<open>send_ack\<close>, \<open>send_bye\<close>, \<open>send_ok\<close>), on the
  \<open>media_wrapper\<close> (\<open>_set_socket_connection\<close>, \<open>stop\<close>), \<open>time.sleep\<close>, and the
  writes of \<open>Phone.calls\<close>.
\<close>

datatype effect =
    SendInvite string nat TransmitType "nat list" "string option" "SIPMessage option"
  | SendAck SIPMessage
  | SendBye SIPMessage
  | SendOk SIPMessage
  | MediaConnect string nat
  | MediaStop
  | Sleep nat
  | CallsInsert string
  | CallsPop string

text \<open>
  The object \<open>_Call\<close>: the dictionary \<open>call_data\<close>, one field per key, and the attribute
  \<open>bye_recv_delay\<close>. A key that \<open>__init__\<close> does not store is an option, \<open>None\<close> while
  it is absent; \<open>state\<close> is stored by \<open>__init__\<close> with the value \<open>None\<close>; \<open>auth_sent\<close>
  is only ever stored as \<open>True\<close> and only read through \<open>get\<close>.
\<close>

record Call =
  available_payload :: "nat list"
  media_port :: nat
  call_type :: string
  state :: "CallState option"
  sendtype :: TransmitType
  pbx_info :: "string \<times> nat"
  call_id :: "string option"
  sess_id :: "string option"
  invite_request :: "SIPMessage option"
  number :: "string option"
  stop_reason :: "CallStopReason option"
  error :: "(string \<times> SIPMessage) option"
  auth_sent :: bool
  bye_recv_delay :: "nat option"

text \<open>
  The result of a method: \<open>Inl e\<close> when it raised \<open>e\<close>, \<open>Inr v\<close> when it returned \<open>v\<close>;
  the object as the method left it (also when it raised); the effects it performed.
\<close>

type_synonym 'a result = "(exn + 'a) \<times> Call \<times> effect list"

section \<open>The wait primitive\<close>

text \<open>
  Modelled from the spec: \<open>helpers/waiter.py\<close> (\<open>try_wait\<close>) is not among the sources.
  The spec (4.1): it polls the condition at a fixed interval until the condition holds
  or the timeout elapses; a condition that throws counts as not yet satisfied.

  The awaitable reads the shared state and yields \<open>Some v\<close> when satisfied. The list has
  one entry for each poll interval that fits in \<open>wait_time\<close>: what the other execution
  context does to the shared state during that interval. The result is the value (or
  \<open>None\<close> when the time is up), the shared state then, and the number of intervals that
  have elapsed. The caller turns \<open>None\<close> into the exception when it passed
  \<open>raise_after_time=True\<close>.
\<close>

fun try_wait :: "('s \<Rightarrow> 'a option) \<Rightarrow> ('s \<Rightarrow> 's) list \<Rightarrow> 's \<Rightarrow> 'a option \<times> 's \<times> nat" where
  "try_wait awaitable [] s = (awaitable s, s, 0)"
| "try_wait awaitable (e # env) s =
     (case awaitable s of
        Some v \<Rightarrow> (Some v, s, 0)
      | None \<Rightarrow> (case try_wait awaitable env (e s) of (r, s', n) \<Rightarrow> (r, s', Suc n)))"

section \<open>The call state machine\<close>

text \<open>\<open>_Call.__init__\<close>; \<open>CALL_TYPE\<close> is a class attribute the sources do not define.\<close>

definition Call_init :: "string \<times> nat \<Rightarrow> nat list \<Rightarrow> nat \<Rightarrow> string \<Rightarrow> Call" where
  "Call_init pbx codecs port ctype =
     \<lparr> available_payload = codecs,
       media_port = port,
       call_type = ctype,
       state = None,
       sendtype = SENDRECV,
       pbx_info = pbx,
       call_id = None,
       sess_id = None,
       invite_request = None,
       number = None,
       stop_reason = None,
       error = None,
       auth_sent = False,
       bye_recv_delay = None \<rparr>"

definition Call_set_state :: "CallState \<Rightarrow> Call \<Rightarrow> Call" where
  "Call_set_state st c = c\<lparr>state := Some st\<rparr>"

definition state_is_ended :: "Call \<Rightarrow> unit option" where
  "state_is_ended c = (if state c = Some ENDED then Some () else None)"

text \<open>
  \<open>_Call._stop\<close>. \<open>env\<close> is what the event-delivery context does to this call during
  the poll intervals of the wait for \<open>ENDED\<close>.
\<close>

definition Call_stop :: "(Call \<Rightarrow> Call) list \<Rightarrow> Call \<Rightarrow> unit result" where
  "Call_stop env c =
     (case state c of
        None \<Rightarrow> (Inr (), c, [])
      | Some st \<Rightarrow>
          if st = ENDED then (Inr (), c, [])
          else
            (case stop_reason c of
               None \<Rightarrow> (Inl (KeyError ''stop_reason''), c, [])
             | Some sr \<Rightarrow>
                 if sr = BYE_FROM_PBX then
                   (Inr (), Call_set_state ENDED c,
                    (case bye_recv_delay c of None \<Rightarrow> [] | Some d \<Rightarrow> [Sleep d]) @ [MediaStop])
                 else if st = TRYING \<or> st = ANSWERED then
                   (case invite_request c of
                      None \<Rightarrow> (Inl (KeyError ''invite_request''), c, [])
                    | Some invreq \<Rightarrow>
                        (case try_wait state_is_ended env c of
                           (None, c', n) \<Rightarrow> (Inl TeardownTimeoutError, c', [SendBye invreq])
                         | (Some u, c', n) \<Rightarrow>
                             if stop_reason c' \<noteq> Some BYE_FROM_LOCAL
                             then (Inl StopReasonError, c', [SendBye invreq, MediaStop])
                             else (Inr (), c', [SendBye invreq, MediaStop])))
                 else (Inl InvalidTeardownStateError, c, [])))"

definition Call_handle_trying :: "SIPMessage \<Rightarrow> Call \<Rightarrow> unit result" where
  "Call_handle_trying request c = (Inr (), Call_set_state TRYING c, [])"

definition Call_handle_unauthorized :: "SIPMessage \<Rightarrow> Call \<Rightarrow> unit result" where
  "Call_handle_unauthorized request c =
     (if \<not> auth_sent c then
        (case number c of
           None \<Rightarrow> (Inl (KeyError ''number''), c, [SendAck request])
         | Some num \<Rightarrow>
             (case sess_id c of
                None \<Rightarrow> (Inl (KeyError ''sess_id''), c, [SendAck request])
              | Some sid \<Rightarrow>
                  (Inr (), c\<lparr>auth_sent := True\<rparr>,
                   [SendAck request,
                    SendInvite num (media_port c) (sendtype c) (available_payload c)
                      (Some sid) (Some request)])))
      else (Inl AuthenticationFailedError, c, []))"

definition Call_handle_not_found :: "(Call \<Rightarrow> Call) list \<Rightarrow> SIPMessage \<Rightarrow> Call \<Rightarrow> unit result" where
  "Call_handle_not_found env request c =
     (case Call_stop env (c\<lparr>stop_reason := Some SIP_ERROR,
                              error := Some (''not found'', request)\<rparr>) of
        (r, c', fx) \<Rightarrow> (r, c', SendAck request # fx))"

definition Call_handle_unavailable :: "(Call \<Rightarrow> Call) list \<Rightarrow> SIPMessage \<Rightarrow> Call \<Rightarrow> unit result" where
  "Call_handle_unavailable env request c =
     (case Call_stop env (c\<lparr>stop_reason := Some SIP_ERROR,
                              error := Some (''unavailable'', request)\<rparr>) of
        (r, c', fx) \<Rightarrow> (r, c', SendAck request # fx))"

definition Call_handle_OK :: "SIPMessage \<Rightarrow> Call \<Rightarrow> unit result" where
  "Call_handle_OK request c =
     (if state c = Some TRYING then
        (Inr (), Call_set_state ANSWERED c,
         [MediaConnect (fst (pbx_info c)) (body_m0_port request), SendAck request])
      else if state c = Some ANSWERED \<and> hdr_cseq_method request = ''BYE'' then
        (Inr (), Call_set_state ENDED c, [])
      else if state c = Some ANSWERED \<and> hdr_cseq_method request = ''INVITE'' then
        (Inr (), c, [])
      else (Inl ProtocolSequenceError, c, []))"

definition Call_handle_bye :: "(Call \<Rightarrow> Call) list \<Rightarrow> SIPMessage \<Rightarrow> Call \<Rightarrow> unit result" where
  "Call_handle_bye env request c =
     (case Call_stop env (c\<lparr>stop_reason := Some BYE_FROM_PBX\<rparr>) of
        (r, c', fx) \<Rightarrow> (r, c', SendOk request # fx))"

text \<open>
  \<open>_Call._new_call\<close> with \<open>_parse_invite\<close>; \<open>invite\<close> is the request that
  \<open>sip_manager.send_invite\<close> returns. \<open>not call_data.get('call_id')\<close> holds for an
  absent key and for the empty string.
\<close>

definition Call_new_call :: "string \<Rightarrow> SIPMessage \<Rightarrow> Call \<Rightarrow> unit result" where
  "Call_new_call num invite c =
     (if call_id c = None \<or> call_id c = Some [] then
        (Inr (),
         c\<lparr>number := Some num,
           invite_request := Some invite,
           call_id := Some (hdr_call_id invite),
           sess_id := Some (body_o_id invite)\<rparr>,
         [SendInvite num (media_port c) (sendtype c) (available_payload c) None None])
      else (Inl AlreadyPlacedError, c, []))"

definition Call_hangup :: "(Call \<Rightarrow> Call) list \<Rightarrow> Call \<Rightarrow> unit result" where
  "Call_hangup env c =
     (if state c \<noteq> Some ENDED
      then Call_stop env (c\<lparr>stop_reason := Some BYE_FROM_LOCAL\<rparr>)
      else (Inr (), c, []))"

section \<open>The phone: registry and dispatcher\<close>

record Phone =
  pbx_host :: string
  pbx_port :: nat
  dial_prefix :: string
  calls :: "string \<rightharpoonup> Call"

text \<open>
  \<open>Phone.call\<close>. The media wrapper's codecs and port, the class attribute \<open>CALL_TYPE\<close>
  and the request returned by \<open>send_invite\<close> are parameters. The stored object is the
  one returned.
\<close>

definition Phone_call ::
  "string \<Rightarrow> nat list \<Rightarrow> nat \<Rightarrow> string \<Rightarrow> SIPMessage \<Rightarrow> Phone \<Rightarrow> (exn + Call) \<times> Phone \<times> effect list" where
  "Phone_call num codecs port ctype invite ph =
     (case Call_new_call (dial_prefix ph @ num) invite
             (Call_init (pbx_host ph, pbx_port ph) codecs port ctype) of
        (Inl e, c, fx) \<Rightarrow> (Inl e, ph, fx)
      | (Inr u, c, fx) \<Rightarrow>
          (case call_id c of
             None \<Rightarrow> (Inl (KeyError ''call_id''), ph, fx)
           | Some cid \<Rightarrow> (Inr c, ph\<lparr>calls := (calls ph)(cid \<mapsto> c)\<rparr>, fx @ [CallsInsert cid])))"

text \<open>The routing of \<open>Phone._callback\<close>, after the call has been found.\<close>

definition Phone_callback_route :: "(Call \<Rightarrow> Call) list \<Rightarrow> SIPMessage \<Rightarrow> Call \<Rightarrow> unit result" where
  "Phone_callback_route env request c =
     (if msg_type request = MESSAGE then
        (if msg_method request = ''BYE'' then Call_handle_bye env request c
         else (Inl UnhandledEventError, c, []))
      else
        (case status request of
           ST_TRYING \<Rightarrow> Call_handle_trying request c
         | ST_OK \<Rightarrow> Call_handle_OK request c
         | ST_NOT_FOUND \<Rightarrow> Call_handle_not_found env request c
         | ST_SERVICE_UNAVAILABLE \<Rightarrow> Call_handle_unavailable env request c
         | ST_UNAUTHORIZED \<Rightarrow> Call_handle_unauthorized request c
         | ST_PROXY_AUTHENTICATION_REQUIRED \<Rightarrow> Call_handle_unauthorized request c
         | ST_OTHER n \<Rightarrow> (Inl UnhandledEventError, c, [])))"

text \<open>
  \<open>Phone._callback\<close>. \<open>reg_env\<close> is what the caller threads do to the phone during the
  poll intervals of the lookup (\<open>wait_time=2\<close>); \<open>env\<close> belongs to the wait inside the
  handler. The handler mutates the object the registry refers to, so the entry of the
  registry is the object as the handler left it. The last component is the number of
  poll intervals the lookup took.
\<close>

definition Phone_callback ::
  "(Phone \<Rightarrow> Phone) list \<Rightarrow> (Call \<Rightarrow> Call) list \<Rightarrow> SIPMessage \<Rightarrow> Phone
     \<Rightarrow> (exn + unit) \<times> Phone \<times> effect list \<times> nat" where
  "Phone_callback reg_env env request ph =
     (case try_wait (\<lambda>p. calls p (hdr_call_id request)) reg_env ph of
        (None, ph', n) \<Rightarrow> (Inl UnknownCallError, ph', [], n)
      | (Some c, ph', n) \<Rightarrow>
          (case Phone_callback_route env request c of
             (r, c', fx) \<Rightarrow> (r, ph'\<lparr>calls := (calls ph')(hdr_call_id request \<mapsto> c')\<rparr>, fx, n)))"

section \<open>Notions used to state the properties\<close>

text \<open>
  The shared state at each poll of a wait: before the first interval, and after each
  interval of the list.
\<close>

fun poll_states :: "('s \<Rightarrow> 's) list \<Rightarrow> 's \<Rightarrow> 's list" where
  "poll_states [] s = [s]"
| "poll_states (e # env) s = s # poll_states env (e s)"

text \<open>The effects performed before the record is stored in the registry under \<open>cid\<close>.\<close>

definition effects_before_insert :: "string \<Rightarrow> effect list \<Rightarrow> effect list" where
  "effects_before_insert cid fx = takeWhile (\<lambda>e. e \<noteq> CallsInsert cid) fx"

section \<open>Example values\<close>

text \<open>
  A phone with an empty registry; the invite that the transport returns for a call to
  \<open>1000\<close>; a response of a given status; the call after \<open>__init__\<close> and \<open>_new_call\<close>;
  the same call answered, with a local stop reason and with the stop reason of a
  signaling error; the call after a provisional response, and after the success response
  that follows it; and steps of the other execution context: one that does nothing, one
  that stores the state \<open>ENDED\<close> (the success response to the teardown request), one that
  registers the call.
\<close>

definition example_invite :: SIPMessage where
  "example_invite =
     \<lparr> msg_type = MESSAGE, msg_method = ''INVITE'', status = ST_OTHER 0,
       hdr_call_id = ''c1'', hdr_cseq_method = ''INVITE'',
       body_o_id = ''s1'', body_m0_port = 20000 \<rparr>"

definition example_response :: "SIPStatus \<Rightarrow> string \<Rightarrow> SIPMessage" where
  "example_response st cseq =
     \<lparr> msg_type = RESPONSE, msg_method = [], status = st,
       hdr_call_id = ''c1'', hdr_cseq_method = cseq,
       body_o_id = ''s2'', body_m0_port = 30000 \<rparr>"

definition example_phone :: Phone where
  "example_phone = \<lparr> pbx_host = ''pbx'', pbx_port = 5060, dial_prefix = ''9'', calls = Map.empty \<rparr>"

definition example_call :: Call where
  "example_call =
     fst (snd (Call_new_call ''1000'' example_invite (Call_init (''pbx'', 5060) [0, 8] 10000 ''out'')))"

definition answered_call :: Call where
  "answered_call = (Call_set_state ANSWERED example_call)\<lparr>stop_reason := Some BYE_FROM_LOCAL\<rparr>"

definition error_call :: Call where
  "error_call = answered_call\<lparr>stop_reason := Some SIP_ERROR\<rparr>"

definition call_after_trying :: Call where
  "call_after_trying =
     fst (snd (Phone_callback_route [] (example_response ST_TRYING ''INVITE'') example_call))"

definition call_after_ok :: Call where
  "call_after_ok =
     fst (snd (Phone_callback_route [] (example_response ST_OK ''INVITE'') call_after_trying))"

definition idle_call :: "Call \<Rightarrow> Call" where
  "idle_call c = c"

definition idle_phone :: "Phone \<Rightarrow> Phone" where
  "idle_phone p = p"

definition state_writer :: "(Call \<Rightarrow> Call)" where
  "state_writer c = c\<lparr>state := Some ENDED\<rparr>"

definition register_example :: "Phone \<Rightarrow> Phone" where
  "register_example p = p\<lparr>calls := (calls p)(''c1'' \<mapsto> example_call)\<rparr>"

section \<open>Lemmas about the wait primitive and the teardown\<close>

lemma length_poll_states: "length (poll_states env s) = Suc (length env)"
  by (induction env arbitrary: s) simp_all

lemma try_wait_timeout:
  "(\<forall>p \<in> set (poll_states env s). aw p = None)
   \<Longrightarrow> try_wait aw env s = (None, last (poll_states env s), length env)"
proof (induction env arbitrary: s)
  case Nil
  then show ?case by simp
next
  case (Cons e env)
  then have "aw s = None" and "\<forall>p \<in> set (poll_states env (e s)). aw p = None"
    by simp_all
  with Cons.IH [of "e s"] show ?case
    by (cases env) simp_all
qed

lemma try_wait_first:
  "k \<le> length env \<Longrightarrow> aw (poll_states env s ! k) = Some v
   \<Longrightarrow> (\<forall>j<k. aw (poll_states env s ! j) = None)
   \<Longrightarrow> try_wait aw env s = (Some v, poll_states env s ! k, k)"
proof (induction env arbitrary: s k)
  case Nil
  then show ?case by simp
next
  case (Cons e env)
  show ?case
  proof (cases k)
    case 0
    with Cons.prems show ?thesis by simp
  next
    case (Suc k')
    with Cons.prems have s0: "aw s = None" by auto
    from Suc Cons.prems have a: "k' \<le> length env" "aw (poll_states env (e s) ! k') = Some v"
      by simp_all
    from Suc Cons.prems have b: "\<forall>j<k'. aw (poll_states env (e s) ! j) = None"
      by (metis Suc_less_eq nth_Cons_Suc poll_states.simps(2))
    from Cons.IH [OF a b] s0 Suc show ?thesis by simp
  qed
qed

lemma try_wait_result:
  "try_wait aw env s = (r, s', n)
   \<Longrightarrow> aw s' = r \<and> n \<le> length env \<and> s' \<in> set (poll_states env s)
       \<and> (r = None \<longrightarrow> n = length env)"
proof (induction env arbitrary: s r s' n)
  case Nil
  then show ?case by auto
next
  case (Cons e env)
  show ?case
  proof (cases "aw s")
    case None
    obtain r1 s1 n1 where t: "try_wait aw env (e s) = (r1, s1, n1)"
      by (cases "try_wait aw env (e s)") auto
    with None Cons.prems have "r = r1" "s' = s1" "n = Suc n1" by simp_all
    with Cons.IH [OF t] show ?thesis by simp
  next
    case (Some v)
    with Cons.prems have "r = Some v" "s' = s" "n = 0" by simp_all
    with Some show ?thesis by simp
  qed
qed

lemma try_wait_None_iff:
  "fst (try_wait aw env s) = None \<longleftrightarrow> (\<forall>p \<in> set (poll_states env s). aw p = None)"
proof (induction env arbitrary: s)
  case Nil
  then show ?case by simp
next
  case (Cons e env)
  then show ?case by (cases "aw s") (simp_all add: split_beta)
qed

lemma try_wait_preserves:
  "(\<forall>e \<in> set env. \<forall>x. f (e x) = f x) \<Longrightarrow> f (fst (snd (try_wait aw env s))) = f s"
proof (induction env arbitrary: s)
  case Nil
  then show ?case by simp
next
  case (Cons e env)
  then show ?case by (cases "aw s") (simp_all add: split_beta)
qed

lemma Call_stop_stop_reason:
  assumes "\<forall>e \<in> set env. \<forall>x. stop_reason (e x) = stop_reason x"
  shows "stop_reason (fst (snd (Call_stop env c))) = stop_reason c"
  using try_wait_preserves [OF assms, of state_is_ended c]
  by (auto simp: Call_stop_def Call_set_state_def split: option.splits if_splits prod.splits)

lemma Call_stop_local_wait:
  assumes st: "state c = Some TRYING \<or> state c = Some ANSWERED"
    and sr: "stop_reason c = Some BYE_FROM_LOCAL \<or> stop_reason c = Some SIP_ERROR"
    and inv: "invite_request c = Some invreq"
  shows "Call_stop env c =
     (case try_wait state_is_ended env c of
        (None, c', n) \<Rightarrow> (Inl TeardownTimeoutError, c', [SendBye invreq])
      | (Some u, c', n) \<Rightarrow>
          if stop_reason c' \<noteq> Some BYE_FROM_LOCAL
          then (Inl StopReasonError, c', [SendBye invreq, MediaStop])
          else (Inr (), c', [SendBye invreq, MediaStop]))"
  using st sr inv unfolding Call_stop_def by auto

lemma poll_states_preserves:
  "(\<forall>e \<in> set env. \<forall>x. f (e x) = f x) \<Longrightarrow> p \<in> set (poll_states env s) \<Longrightarrow> f p = f s"
  by (induction env arbitrary: s) auto

lemma Call_stop_found_at:
  assumes st: "state c = Some TRYING \<or> state c = Some ANSWERED"
    and sr: "stop_reason c = Some BYE_FROM_LOCAL \<or> stop_reason c = Some SIP_ERROR"
    and inv: "invite_request c = Some invreq"
    and k: "k \<le> length env" "state (poll_states env c ! k) = Some ENDED"
      "\<forall>j<k. state (poll_states env c ! j) \<noteq> Some ENDED"
  shows "Call_stop env c =
     (if stop_reason (poll_states env c ! k) = Some BYE_FROM_LOCAL
      then Inr () else Inl StopReasonError,
      poll_states env c ! k, [SendBye invreq, MediaStop])"
proof -
  from k have "try_wait state_is_ended env c = (Some (), poll_states env c ! k, k)"
    by (intro try_wait_first) (simp_all add: state_is_ended_def)
  then show ?thesis
    by (simp add: Call_stop_local_wait [OF st sr inv])
qed

lemma Call_stop_never_ended:
  assumes st: "state c = Some TRYING \<or> state c = Some ANSWERED"
    and sr: "stop_reason c = Some BYE_FROM_LOCAL \<or> stop_reason c = Some SIP_ERROR"
    and inv: "invite_request c = Some invreq"
    and no: "\<forall>p \<in> set (poll_states env c). state p \<noteq> Some ENDED"
  shows "Call_stop env c = (Inl TeardownTimeoutError, last (poll_states env c), [SendBye invreq])"
proof -
  from no have "\<forall>p \<in> set (poll_states env c). state_is_ended p = None"
    by (simp add: state_is_ended_def)
  from try_wait_timeout [OF this] show ?thesis
    by (simp add: Call_stop_local_wait [OF st sr inv])
qed

lemma Call_stop_not_unknown: "fst (Call_stop env c) \<noteq> Inl UnknownCallError"
  by (auto simp: Call_stop_def split: option.splits prod.splits)

lemma route_not_unknown: "fst (Phone_callback_route env request c) \<noteq> Inl UnknownCallError"
  using Call_stop_not_unknown
  by (auto simp: Phone_callback_route_def Call_handle_bye_def Call_handle_trying_def
      Call_handle_OK_def Call_handle_not_found_def Call_handle_unavailable_def
      Call_handle_unauthorized_def split_beta split: SIPStatus.splits option.splits)

lemma Phone_callback_found:
  assumes "try_wait (\<lambda>p. calls p (hdr_call_id request)) reg_env ph = (Some c, ph', n)"
  shows "Phone_callback reg_env env request ph =
     (fst (Phone_callback_route env request c),
      ph'\<lparr>calls := (calls ph')(hdr_call_id request \<mapsto> fst (snd (Phone_callback_route env request c)))\<rparr>,
      snd (snd (Phone_callback_route env request c)), n)"
  using assms by (simp add: Phone_callback_def split_beta)

lemma Phone_callback_unknown_iff:
  "fst (Phone_callback reg_env env request ph) = Inl UnknownCallError
   \<longleftrightarrow> fst (try_wait (\<lambda>p. calls p (hdr_call_id request)) reg_env ph) = None"
proof (cases "try_wait (\<lambda>p. calls p (hdr_call_id request)) reg_env ph")
  case (fields r ph' n)
  show ?thesis
  proof (cases r)
    case None
    with fields show ?thesis by (simp add: Phone_callback_def)
  next
    case (Some c)
    with fields route_not_unknown [of env request c] show ?thesis
      by (simp add: Phone_callback_found)
  qed
qed

lemma example_call_fields:
  "state example_call = None" "invite_request example_call = Some example_invite"
  "stop_reason example_call = None" "bye_recv_delay example_call = None"
  by (simp_all add: example_call_def Call_new_call_def Call_init_def)

lemma answered_call_fields:
  "state answered_call = Some ANSWERED" "invite_request answered_call = Some example_invite"
  "stop_reason answered_call = Some BYE_FROM_LOCAL"
  by (simp_all add: answered_call_def Call_set_state_def example_call_fields)

lemma error_call_fields:
  "state error_call = Some ANSWERED" "invite_request error_call = Some example_invite"
  "stop_reason error_call = Some SIP_ERROR"
  by (simp_all add: error_call_def answered_call_fields)

section \<open>Properties\<close>

text \<open>
  C1 (the code at a reachable input). The claim excludes every backward transition. A
  placed call that has handled a provisional response and then a success response is in
  state \<open>ANSWERED\<close>; when a further provisional response is routed to it,
  \<open>_handle_trying\<close> returns and the state is \<open>TRYING\<close> again: \<open>_handle_trying\<close> writes the
  state without looking at it, where \<open>_handle_OK\<close>, \<open>_hangup\<close> and \<open>_stop\<close> all look at
  the state first.
\<close>

theorem late_trying_after_answer:
  "state example_call = None
   \<and> state call_after_trying = Some TRYING
   \<and> state call_after_ok = Some ANSWERED
   \<and> Phone_callback_route [] (example_response ST_TRYING ''INVITE'') call_after_ok
       = (Inr (), Call_set_state TRYING call_after_ok, [])
   \<and> state (fst (snd (Phone_callback_route [] (example_response ST_TRYING ''INVITE'')
        call_after_ok))) = Some TRYING"
  by (simp add: call_after_ok_def call_after_trying_def Phone_callback_route_def
      example_response_def Call_handle_trying_def Call_handle_OK_def Call_set_state_def
      example_call_fields)

text \<open>
  C2 (as the code has it). \<open>Phone.call\<close> first sends the invite (inside \<open>_new_call\<close>)
  and stores the call in the registry afterwards, under the \<open>Call-ID\<close> of the request
  that \<open>send_invite\<close> returned; the only effect performed before the record is stored
  is that invite. \<open>Phone.call\<close> always returns, and the stored record is the placed call.
\<close>

theorem invite_then_insert:
  "Phone_call num codecs port ctype invite ph =
     (Inr ((Call_init (pbx_host ph, pbx_port ph) codecs port ctype)
             \<lparr>number := Some (dial_prefix ph @ num), invite_request := Some invite,
              call_id := Some (hdr_call_id invite), sess_id := Some (body_o_id invite)\<rparr>),
      ph\<lparr>calls := (calls ph)(hdr_call_id invite \<mapsto>
             (Call_init (pbx_host ph, pbx_port ph) codecs port ctype)
             \<lparr>number := Some (dial_prefix ph @ num), invite_request := Some invite,
              call_id := Some (hdr_call_id invite), sess_id := Some (body_o_id invite)\<rparr>)\<rparr>,
      [SendInvite (dial_prefix ph @ num) port SENDRECV codecs None None,
       CallsInsert (hdr_call_id invite)])
   \<and> effects_before_insert (hdr_call_id invite)
         (snd (snd (Phone_call num codecs port ctype invite ph)))
       = [SendInvite (dial_prefix ph @ num) port SENDRECV codecs None None]"
  by (simp add: Phone_call_def Call_new_call_def Call_init_def effects_before_insert_def)

text \<open>
  The claim as stated fails: for a call to \<open>1000\<close> on a phone with an empty registry the
  invite is sent while the registry has no record for \<open>c1\<close>, and the record is stored
  only afterwards.
\<close>

theorem invite_before_insert_counterexample:
  "calls example_phone ''c1'' = None
   \<and> snd (snd (Phone_call ''1000'' [0, 8] 10000 ''out'' example_invite example_phone))
       = [SendInvite ''91000'' 10000 SENDRECV [0, 8] None None, CallsInsert ''c1'']
   \<and> effects_before_insert ''c1''
        (snd (snd (Phone_call ''1000'' [0, 8] 10000 ''out'' example_invite example_phone)))
       = [SendInvite ''91000'' 10000 SENDRECV [0, 8] None None]"
  by (simp add: Phone_call_def Call_new_call_def Call_init_def example_phone_def
      example_invite_def effects_before_insert_def)

text \<open>
  C3 (as the code has it). On a call whose state is unset (a placed call on which no
  event has been handled; the code never assigns \<open>DIALING\<close>), \<open>_handle_not_found\<close>
  records the stop reason \<open>SIP_ERROR\<close> and the error, sends the acknowledgment as its
  only effect (the media transport is not connected), returns, and leaves the state
  unset. On a call whose state is \<open>DIALING\<close> it records and sends the same, raises the
  \<open>RuntimeError\<close> of \<open>_stop\<close>, and leaves the state \<open>DIALING\<close>. In neither case is the
  state \<open>ENDED\<close> afterwards.
\<close>

theorem not_found_before_trying:
  "(state c = None \<longrightarrow>
      Call_handle_not_found env request c
        = (Inr (), c\<lparr>stop_reason := Some SIP_ERROR, error := Some (''not found'', request)\<rparr>,
           [SendAck request]))
   \<and> (state c = Some DIALING \<longrightarrow>
      Call_handle_not_found env request c
        = (Inl InvalidTeardownStateError,
           c\<lparr>stop_reason := Some SIP_ERROR, error := Some (''not found'', request)\<rparr>,
           [SendAck request]))"
  by (simp add: Call_handle_not_found_def Call_stop_def)

theorem not_found_before_trying_witness:
  "state example_call = None
   \<and> Call_handle_not_found [] (example_response ST_NOT_FOUND ''INVITE'') example_call
        = (Inr (),
           example_call\<lparr>stop_reason := Some SIP_ERROR,
             error := Some (''not found'', example_response ST_NOT_FOUND ''INVITE'')\<rparr>,
           [SendAck (example_response ST_NOT_FOUND ''INVITE'')])"
proof -
  have h: "state example_call = None"
    by (simp add: example_call_def Call_new_call_def Call_init_def)
  show ?thesis
    using h not_found_before_trying [where c = example_call and env = "[]"
        and request = "example_response ST_NOT_FOUND ''INVITE''"]
    by simp
qed

text \<open>
  The claim as stated fails: a not-found response handled by a placed call before any
  other event (state unset) leaves the state unset, and handled in state \<open>DIALING\<close> it
  leaves the state \<open>DIALING\<close> and the handler raises; the state is \<open>ENDED\<close> in neither
  case.
\<close>

theorem not_found_leaves_state_counterexample:
  "state example_call = None
   \<and> Call_handle_not_found [idle_call] (example_response ST_NOT_FOUND ''INVITE'') example_call
       = (Inr (),
          example_call\<lparr>stop_reason := Some SIP_ERROR,
            error := Some (''not found'', example_response ST_NOT_FOUND ''INVITE'')\<rparr>,
          [SendAck (example_response ST_NOT_FOUND ''INVITE'')])
   \<and> state (fst (snd (Call_handle_not_found [idle_call]
        (example_response ST_NOT_FOUND ''INVITE'') example_call))) \<noteq> Some ENDED
   \<and> Call_handle_not_found [idle_call] (example_response ST_NOT_FOUND ''INVITE'')
        (Call_set_state DIALING example_call)
       = (Inl InvalidTeardownStateError,
          (Call_set_state DIALING example_call)
            \<lparr>stop_reason := Some SIP_ERROR,
             error := Some (''not found'', example_response ST_NOT_FOUND ''INVITE'')\<rparr>,
          [SendAck (example_response ST_NOT_FOUND ''INVITE'')])
   \<and> state (fst (snd (Call_handle_not_found [idle_call]
        (example_response ST_NOT_FOUND ''INVITE'') (Call_set_state DIALING example_call))))
       \<noteq> Some ENDED"
  by (simp add: Call_handle_not_found_def Call_stop_def Call_set_state_def example_call_fields)

text \<open>
  C4 (as the code has it). The handlers store the stop reason without looking at the one
  already stored: \<open>_handle_not_found\<close> and \<open>_handle_unavailable\<close> always leave
  \<open>SIP_ERROR\<close>, \<open>_handle_bye\<close> always leaves \<open>BYE_FROM_PBX\<close>, and \<open>_hangup\<close> leaves
  \<open>BYE_FROM_LOCAL\<close> unless the state is \<open>ENDED\<close>; only then is \<open>_hangup\<close> a no-op that
  keeps the stored reason. (The other execution context is taken not to write the stop
  reason during a wait.)
\<close>

theorem stop_reason_writes:
  assumes "\<forall>e \<in> set env. \<forall>x. stop_reason (e x) = stop_reason x"
  shows "stop_reason (fst (snd (Call_handle_not_found env request c))) = Some SIP_ERROR
         \<and> stop_reason (fst (snd (Call_handle_unavailable env request c))) = Some SIP_ERROR
         \<and> stop_reason (fst (snd (Call_handle_bye env request c))) = Some BYE_FROM_PBX
         \<and> (state c \<noteq> Some ENDED \<longrightarrow>
              stop_reason (fst (snd (Call_hangup env c))) = Some BYE_FROM_LOCAL)
         \<and> (state c = Some ENDED \<longrightarrow> Call_hangup env c = (Inr (), c, []))"
  using Call_stop_stop_reason [OF assms]
  by (simp add: Call_handle_not_found_def Call_handle_unavailable_def Call_handle_bye_def
      Call_hangup_def split_beta)

theorem stop_reason_writes_witness:
  "stop_reason (Call_set_state ANSWERED example_call\<lparr>stop_reason := Some BYE_FROM_PBX\<rparr>)
     = Some BYE_FROM_PBX
   \<and> stop_reason (fst (snd (Call_hangup [state_writer]
        (Call_set_state ANSWERED example_call\<lparr>stop_reason := Some BYE_FROM_PBX\<rparr>))))
       = Some BYE_FROM_LOCAL
   \<and> Call_hangup [state_writer] (Call_set_state ENDED example_call)
       = (Inr (), Call_set_state ENDED example_call, [])"
proof -
  have h: "\<forall>e \<in> set [state_writer]. \<forall>x. stop_reason (e x) = stop_reason x"
    by (simp add: state_writer_def)
  show ?thesis
    using stop_reason_writes [OF h,
        where c = "Call_set_state ANSWERED example_call\<lparr>stop_reason := Some BYE_FROM_PBX\<rparr>"]
      stop_reason_writes [OF h, where c = "Call_set_state ENDED example_call"]
    by (simp add: Call_set_state_def)
qed

text \<open>
  The claim as stated fails: after a not-found response has stored \<open>SIP_ERROR\<close>, a
  \<open>_hangup\<close> overwrites it with \<open>BYE_FROM_LOCAL\<close>.
\<close>

theorem stop_reason_overwritten_counterexample:
  "stop_reason (fst (snd (Call_handle_not_found []
       (example_response ST_NOT_FOUND ''INVITE'') example_call))) = Some SIP_ERROR
   \<and> stop_reason (fst (snd (Call_hangup []
       (fst (snd (Call_handle_not_found []
          (example_response ST_NOT_FOUND ''INVITE'') example_call)))))) = Some BYE_FROM_LOCAL"
  by (simp add: Call_handle_not_found_def Call_hangup_def Call_stop_def example_call_def
      Call_new_call_def Call_init_def)

text \<open>
  C5. \<open>_handle_OK\<close> in state \<open>ENDED\<close> or \<open>DIALING\<close> raises (the \<open>Exception\<close> of its last
  branch) and leaves the call as it was, with no effect. It returns exactly when the
  state is \<open>TRYING\<close>, or the state is \<open>ANSWERED\<close> and the \<open>CSeq\<close> method of the
  response is \<open>BYE\<close> or \<open>INVITE\<close>; whenever it does not return it raises that exception
  and changes nothing.
\<close>

theorem success_response_sequencing:
  "(state c = Some ENDED \<or> state c = Some DIALING \<longrightarrow>
      Call_handle_OK request c = (Inl ProtocolSequenceError, c, []))
   \<and> (fst (Call_handle_OK request c) = Inr () \<longleftrightarrow>
        state c = Some TRYING
        \<or> (state c = Some ANSWERED
            \<and> (hdr_cseq_method request = ''BYE'' \<or> hdr_cseq_method request = ''INVITE'')))
   \<and> (fst (Call_handle_OK request c) \<noteq> Inr () \<longrightarrow>
        Call_handle_OK request c = (Inl ProtocolSequenceError, c, []))"
  by (auto simp: Call_handle_OK_def)

theorem success_response_sequencing_witness:
  "Call_handle_OK (example_response ST_OK ''INVITE'') (Call_set_state ENDED example_call)
     = (Inl ProtocolSequenceError, Call_set_state ENDED example_call, [])
   \<and> Call_handle_OK (example_response ST_OK ''INVITE'') (Call_set_state DIALING example_call)
     = (Inl ProtocolSequenceError, Call_set_state DIALING example_call, [])
   \<and> fst (Call_handle_OK (example_response ST_OK ''INVITE'') (Call_set_state TRYING example_call))
     = Inr ()"
proof (intro conjI)
  have "state (Call_set_state ENDED example_call) = Some ENDED"
    by (simp add: Call_set_state_def)
  then show "Call_handle_OK (example_response ST_OK ''INVITE'') (Call_set_state ENDED example_call)
     = (Inl ProtocolSequenceError, Call_set_state ENDED example_call, [])"
    using success_response_sequencing [THEN conjunct1] by blast
next
  have "state (Call_set_state DIALING example_call) = Some DIALING"
    by (simp add: Call_set_state_def)
  then show "Call_handle_OK (example_response ST_OK ''INVITE'') (Call_set_state DIALING example_call)
     = (Inl ProtocolSequenceError, Call_set_state DIALING example_call, [])"
    using success_response_sequencing [THEN conjunct1] by blast
next
  have "state (Call_set_state TRYING example_call) = Some TRYING"
    by (simp add: Call_set_state_def)
  then show "fst (Call_handle_OK (example_response ST_OK ''INVITE'')
      (Call_set_state TRYING example_call)) = Inr ()"
    using success_response_sequencing [THEN conjunct2, THEN conjunct1] by blast
qed

text \<open>
  C6. On a placed call (\<open>number\<close> and \<open>sess_id\<close> stored by \<open>_new_call\<close>) with no
  authentication attempt recorded, \<open>_handle_unauthorized\<close> sends the acknowledgment, then
  exactly one invite carrying the session id and the challenge, sets \<open>auth_sent\<close> and
  returns; a second invocation then raises and sends nothing. With \<open>auth_sent\<close> set it
  always raises, sends nothing and changes nothing.
\<close>

theorem unauthorized_once_then_fails:
  "(number c = Some num \<and> sess_id c = Some sid \<and> \<not> auth_sent c \<longrightarrow>
      Call_handle_unauthorized request c
        = (Inr (), c\<lparr>auth_sent := True\<rparr>,
           [SendAck request,
            SendInvite num (media_port c) (sendtype c) (available_payload c)
              (Some sid) (Some request)])
      \<and> Call_handle_unauthorized request' (c\<lparr>auth_sent := True\<rparr>)
        = (Inl AuthenticationFailedError, c\<lparr>auth_sent := True\<rparr>, []))
   \<and> (auth_sent c \<longrightarrow>
      Call_handle_unauthorized request c = (Inl AuthenticationFailedError, c, []))"
  by (simp add: Call_handle_unauthorized_def)

theorem unauthorized_once_then_fails_witness:
  "Call_handle_unauthorized (example_response ST_UNAUTHORIZED ''INVITE'') example_call
     = (Inr (), example_call\<lparr>auth_sent := True\<rparr>,
        [SendAck (example_response ST_UNAUTHORIZED ''INVITE''),
         SendInvite ''1000'' 10000 SENDRECV [0, 8] (Some ''s1'')
           (Some (example_response ST_UNAUTHORIZED ''INVITE''))])
   \<and> Call_handle_unauthorized (example_response ST_PROXY_AUTHENTICATION_REQUIRED ''INVITE'')
        (example_call\<lparr>auth_sent := True\<rparr>)
     = (Inl AuthenticationFailedError, example_call\<lparr>auth_sent := True\<rparr>, [])"
proof -
  have h: "number example_call = Some ''1000''" "sess_id example_call = Some ''s1''"
    "\<not> auth_sent example_call" "media_port example_call = 10000"
    "sendtype example_call = SENDRECV" "available_payload example_call = [0, 8]"
    by (simp_all add: example_call_def Call_new_call_def Call_init_def example_invite_def)
  show ?thesis
    using h unauthorized_once_then_fails [where c = example_call and num = "''1000''"
        and sid = "''s1''" and request = "example_response ST_UNAUTHORIZED ''INVITE''"
        and request' = "example_response ST_PROXY_AUTHENTICATION_REQUIRED ''INVITE''"]
    by simp
qed

text \<open>
  C7 (as the code has it). \<open>_stop\<close> does nothing and returns when the state is \<open>ENDED\<close>
  and also when it is unset. In state \<open>TRYING\<close> or \<open>ANSWERED\<close>, with the stop reason
  \<open>BYE_FROM_LOCAL\<close> or \<open>SIP_ERROR\<close>, on a placed call (the invite request is stored), it
  sends one teardown request and waits. When the state is \<open>ENDED\<close> first at poll \<open>k\<close>
  within the wait time, the effects are exactly that one teardown request followed by
  the stop of the media transport, the call is as it was at that poll, and \<open>_stop\<close>
  returns when the stop reason stored then is \<open>BYE_FROM_LOCAL\<close> and raises the exception
  of its last check otherwise. When the state is \<open>ENDED\<close> at no poll, the timeout is
  raised after the last poll, with the teardown request sent and the media transport not
  stopped. When the other execution context does not write the stop reason, the stop
  reason at every poll is the one \<open>_stop\<close> started with: a locally initiated teardown
  returns and an error-initiated one raises after the media transport was stopped. In
  state \<open>DIALING\<close> or \<open>RINGING\<close>, with one of these two stop reasons, it raises the
  invariant violation and does nothing.
\<close>

theorem teardown_by_state:
  "(state c = Some ENDED \<or> state c = None \<longrightarrow> Call_stop env c = (Inr (), c, []))
   \<and> ((state c = Some TRYING \<or> state c = Some ANSWERED)
        \<and> (stop_reason c = Some BYE_FROM_LOCAL \<or> stop_reason c = Some SIP_ERROR)
        \<and> invite_request c = Some invreq \<longrightarrow>
        (k \<le> length env \<and> state (poll_states env c ! k) = Some ENDED
           \<and> (\<forall>j<k. state (poll_states env c ! j) \<noteq> Some ENDED) \<longrightarrow>
           Call_stop env c =
             (if stop_reason (poll_states env c ! k) = Some BYE_FROM_LOCAL
              then Inr () else Inl StopReasonError,
              poll_states env c ! k, [SendBye invreq, MediaStop]))
        \<and> ((\<forall>p \<in> set (poll_states env c). state p \<noteq> Some ENDED) \<longrightarrow>
           Call_stop env c
             = (Inl TeardownTimeoutError, last (poll_states env c), [SendBye invreq]))
        \<and> ((\<forall>e \<in> set env. \<forall>x. stop_reason (e x) = stop_reason x) \<and> k \<le> length env \<longrightarrow>
           stop_reason (poll_states env c ! k) = stop_reason c))
   \<and> ((state c = Some DIALING \<or> state c = Some RINGING)
        \<and> (stop_reason c = Some BYE_FROM_LOCAL \<or> stop_reason c = Some SIP_ERROR) \<longrightarrow>
        Call_stop env c = (Inl InvalidTeardownStateError, c, []))"
proof (intro conjI impI)
  assume "state c = Some ENDED \<or> state c = None"
  then show "Call_stop env c = (Inr (), c, [])"
    by (auto simp: Call_stop_def)
next
  assume a: "(state c = Some TRYING \<or> state c = Some ANSWERED)
        \<and> (stop_reason c = Some BYE_FROM_LOCAL \<or> stop_reason c = Some SIP_ERROR)
        \<and> invite_request c = Some invreq"
    and b: "k \<le> length env \<and> state (poll_states env c ! k) = Some ENDED
           \<and> (\<forall>j<k. state (poll_states env c ! j) \<noteq> Some ENDED)"
  from a have st: "state c = Some TRYING \<or> state c = Some ANSWERED"
    and sr: "stop_reason c = Some BYE_FROM_LOCAL \<or> stop_reason c = Some SIP_ERROR"
    and inv: "invite_request c = Some invreq"
    by simp_all
  from b have k: "k \<le> length env" "state (poll_states env c ! k) = Some ENDED"
      "\<forall>j<k. state (poll_states env c ! j) \<noteq> Some ENDED"
    by simp_all
  from Call_stop_found_at [OF st sr inv k]
  show "Call_stop env c =
             (if stop_reason (poll_states env c ! k) = Some BYE_FROM_LOCAL
              then Inr () else Inl StopReasonError,
              poll_states env c ! k, [SendBye invreq, MediaStop])" .
next
  assume a: "(state c = Some TRYING \<or> state c = Some ANSWERED)
        \<and> (stop_reason c = Some BYE_FROM_LOCAL \<or> stop_reason c = Some SIP_ERROR)
        \<and> invite_request c = Some invreq"
    and no: "\<forall>p \<in> set (poll_states env c). state p \<noteq> Some ENDED"
  from a have st: "state c = Some TRYING \<or> state c = Some ANSWERED"
    and sr: "stop_reason c = Some BYE_FROM_LOCAL \<or> stop_reason c = Some SIP_ERROR"
    and inv: "invite_request c = Some invreq"
    by simp_all
  from Call_stop_never_ended [OF st sr inv no]
  show "Call_stop env c
             = (Inl TeardownTimeoutError, last (poll_states env c), [SendBye invreq])" .
next
  assume p: "(\<forall>e \<in> set env. \<forall>x. stop_reason (e x) = stop_reason x) \<and> k \<le> length env"
  then have "poll_states env c ! k \<in> set (poll_states env c)"
    by (simp add: length_poll_states)
  with p show "stop_reason (poll_states env c ! k) = stop_reason c"
    using poll_states_preserves [of env stop_reason] by blast
next
  assume "(state c = Some DIALING \<or> state c = Some RINGING)
        \<and> (stop_reason c = Some BYE_FROM_LOCAL \<or> stop_reason c = Some SIP_ERROR)"
  then show "Call_stop env c = (Inl InvalidTeardownStateError, c, [])"
    by (auto simp: Call_stop_def)
qed

theorem teardown_by_state_witness:
  "Call_stop [idle_call, state_writer] (Call_set_state ENDED example_call)
     = (Inr (), Call_set_state ENDED example_call, [])
   \<and> Call_stop [idle_call, state_writer] answered_call
     = (Inr (), answered_call\<lparr>state := Some ENDED\<rparr>, [SendBye example_invite, MediaStop])
   \<and> Call_stop [idle_call, state_writer] error_call
     = (Inl StopReasonError, error_call\<lparr>state := Some ENDED\<rparr>,
        [SendBye example_invite, MediaStop])
   \<and> Call_stop [idle_call] answered_call
     = (Inl TeardownTimeoutError, answered_call, [SendBye example_invite])
   \<and> Call_stop [] (answered_call\<lparr>state := Some RINGING\<rparr>)
     = (Inl InvalidTeardownStateError, answered_call\<lparr>state := Some RINGING\<rparr>, [])"
proof (intro conjI)
  have "state (Call_set_state ENDED example_call) = Some ENDED
        \<or> state (Call_set_state ENDED example_call) = None"
    by (simp add: Call_set_state_def)
  then show "Call_stop [idle_call, state_writer] (Call_set_state ENDED example_call)
     = (Inr (), Call_set_state ENDED example_call, [])"
    using teardown_by_state [THEN conjunct1] by blast
next
  have pre: "(state answered_call = Some TRYING \<or> state answered_call = Some ANSWERED)
     \<and> (stop_reason answered_call = Some BYE_FROM_LOCAL \<or> stop_reason answered_call = Some SIP_ERROR)
     \<and> invite_request answered_call = Some example_invite"
    by (simp add: answered_call_fields)
  have found: "2 \<le> length [idle_call, state_writer]
      \<and> state (poll_states [idle_call, state_writer] answered_call ! 2) = Some ENDED
      \<and> (\<forall>j<2. state (poll_states [idle_call, state_writer] answered_call ! j) \<noteq> Some ENDED)"
    by (auto simp: idle_call_def state_writer_def numeral_2_eq_2 less_Suc_eq answered_call_fields)
  from teardown_by_state [where c = answered_call and env = "[idle_call, state_writer]"
      and invreq = example_invite and k = 2, THEN conjunct2, THEN conjunct1, THEN mp, OF pre,
      THEN conjunct1, THEN mp, OF found]
  show "Call_stop [idle_call, state_writer] answered_call
     = (Inr (), answered_call\<lparr>state := Some ENDED\<rparr>, [SendBye example_invite, MediaStop])"
    by (simp add: idle_call_def state_writer_def numeral_2_eq_2 answered_call_fields)
next
  have pre: "(state error_call = Some TRYING \<or> state error_call = Some ANSWERED)
     \<and> (stop_reason error_call = Some BYE_FROM_LOCAL \<or> stop_reason error_call = Some SIP_ERROR)
     \<and> invite_request error_call = Some example_invite"
    by (simp add: error_call_fields)
  have found: "2 \<le> length [idle_call, state_writer]
      \<and> state (poll_states [idle_call, state_writer] error_call ! 2) = Some ENDED
      \<and> (\<forall>j<2. state (poll_states [idle_call, state_writer] error_call ! j) \<noteq> Some ENDED)"
    by (auto simp: idle_call_def state_writer_def numeral_2_eq_2 less_Suc_eq error_call_fields)
  from teardown_by_state [where c = error_call and env = "[idle_call, state_writer]"
      and invreq = example_invite and k = 2, THEN conjunct2, THEN conjunct1, THEN mp, OF pre,
      THEN conjunct1, THEN mp, OF found]
  show "Call_stop [idle_call, state_writer] error_call
     = (Inl StopReasonError, error_call\<lparr>state := Some ENDED\<rparr>,
        [SendBye example_invite, MediaStop])"
    by (simp add: idle_call_def state_writer_def numeral_2_eq_2 error_call_fields)
next
  have pre: "(state answered_call = Some TRYING \<or> state answered_call = Some ANSWERED)
     \<and> (stop_reason answered_call = Some BYE_FROM_LOCAL \<or> stop_reason answered_call = Some SIP_ERROR)
     \<and> invite_request answered_call = Some example_invite"
    by (simp add: answered_call_fields)
  have no: "\<forall>p \<in> set (poll_states [idle_call] answered_call). state p \<noteq> Some ENDED"
    by (simp add: idle_call_def answered_call_fields)
  from teardown_by_state [where c = answered_call and env = "[idle_call]"
      and invreq = example_invite, THEN conjunct2, THEN conjunct1, THEN mp, OF pre,
      THEN conjunct2, THEN conjunct1, THEN mp, OF no]
  show "Call_stop [idle_call] answered_call
     = (Inl TeardownTimeoutError, answered_call, [SendBye example_invite])"
    by (simp add: idle_call_def)
next
  have "(state (answered_call\<lparr>state := Some RINGING\<rparr>) = Some DIALING
         \<or> state (answered_call\<lparr>state := Some RINGING\<rparr>) = Some RINGING)
     \<and> (stop_reason (answered_call\<lparr>state := Some RINGING\<rparr>) = Some BYE_FROM_LOCAL
         \<or> stop_reason (answered_call\<lparr>state := Some RINGING\<rparr>) = Some SIP_ERROR)"
    by (simp add: answered_call_fields)
  then show "Call_stop [] (answered_call\<lparr>state := Some RINGING\<rparr>)
     = (Inl InvalidTeardownStateError, answered_call\<lparr>state := Some RINGING\<rparr>, [])"
    using teardown_by_state [THEN conjunct2, THEN conjunct2] by blast
qed

text \<open>
  The claim as stated fails: a teardown that starts from the unset state, which is
  neither \<open>ENDED\<close> nor \<open>TRYING\<close> nor \<open>ANSWERED\<close>, does not fail; it returns and does
  nothing, for a local and for an error stop reason alike.
\<close>

theorem teardown_unset_state_counterexample:
  "state (example_call\<lparr>stop_reason := Some BYE_FROM_LOCAL\<rparr>) = None
   \<and> Call_stop [idle_call] (example_call\<lparr>stop_reason := Some BYE_FROM_LOCAL\<rparr>)
       = (Inr (), example_call\<lparr>stop_reason := Some BYE_FROM_LOCAL\<rparr>, [])
   \<and> Call_stop [idle_call] (example_call\<lparr>stop_reason := Some SIP_ERROR\<rparr>)
       = (Inr (), example_call\<lparr>stop_reason := Some SIP_ERROR\<rparr>, [])"
  by (simp add: Call_stop_def example_call_fields)

text \<open>
  C8. Dispatch of an event whose \<open>Call-ID\<close> is first found in the registry at poll \<open>k\<close>
  of the lookup (\<open>k\<close> intervals into the wait time, not found at any earlier poll) routes
  the event to that call after exactly \<open>k\<close> intervals and does not fail with the
  unknown-call error. When the \<open>Call-ID\<close> is in the registry at none of the polls,
  dispatch fails with the unknown-call error, with no effect; and whenever it fails with
  that error, all the intervals of the wait time have elapsed and the \<open>Call-ID\<close> was
  in the registry at none of the polls.
\<close>

theorem callback_lookup:
  "(k \<le> length reg_env
      \<and> calls (poll_states reg_env ph ! k) (hdr_call_id request) = Some c
      \<and> (\<forall>j<k. calls (poll_states reg_env ph ! j) (hdr_call_id request) = None) \<longrightarrow>
      Phone_callback reg_env env request ph =
        (fst (Phone_callback_route env request c),
         (poll_states reg_env ph ! k)
           \<lparr>calls := (calls (poll_states reg_env ph ! k))
              (hdr_call_id request \<mapsto> fst (snd (Phone_callback_route env request c)))\<rparr>,
         snd (snd (Phone_callback_route env request c)), k)
      \<and> fst (Phone_callback reg_env env request ph) \<noteq> Inl UnknownCallError)
   \<and> ((\<forall>p \<in> set (poll_states reg_env ph). calls p (hdr_call_id request) = None) \<longrightarrow>
      Phone_callback reg_env env request ph =
        (Inl UnknownCallError, last (poll_states reg_env ph), [], length reg_env))
   \<and> (fst (Phone_callback reg_env env request ph) = Inl UnknownCallError \<longrightarrow>
      snd (snd (snd (Phone_callback reg_env env request ph))) = length reg_env
      \<and> (\<forall>p \<in> set (poll_states reg_env ph). calls p (hdr_call_id request) = None))"
proof (intro conjI impI)
  assume a: "k \<le> length reg_env
      \<and> calls (poll_states reg_env ph ! k) (hdr_call_id request) = Some c
      \<and> (\<forall>j<k. calls (poll_states reg_env ph ! j) (hdr_call_id request) = None)"
  then have tw: "try_wait (\<lambda>p. calls p (hdr_call_id request)) reg_env ph
      = (Some c, poll_states reg_env ph ! k, k)"
    by (intro try_wait_first) simp_all
  from Phone_callback_found [OF tw]
  show "Phone_callback reg_env env request ph =
        (fst (Phone_callback_route env request c),
         (poll_states reg_env ph ! k)
           \<lparr>calls := (calls (poll_states reg_env ph ! k))
              (hdr_call_id request \<mapsto> fst (snd (Phone_callback_route env request c)))\<rparr>,
         snd (snd (Phone_callback_route env request c)), k)" .
  from tw show "fst (Phone_callback reg_env env request ph) \<noteq> Inl UnknownCallError"
    by (simp add: Phone_callback_unknown_iff)
next
  assume "\<forall>p \<in> set (poll_states reg_env ph). calls p (hdr_call_id request) = None"
  from try_wait_timeout [of reg_env ph "\<lambda>p. calls p (hdr_call_id request)", OF this]
  show "Phone_callback reg_env env request ph =
        (Inl UnknownCallError, last (poll_states reg_env ph), [], length reg_env)"
    by (simp add: Phone_callback_def)
next
  assume "fst (Phone_callback reg_env env request ph) = Inl UnknownCallError"
  then have n: "fst (try_wait (\<lambda>p. calls p (hdr_call_id request)) reg_env ph) = None"
    by (simp add: Phone_callback_unknown_iff)
  then have all: "\<forall>p \<in> set (poll_states reg_env ph). calls p (hdr_call_id request) = None"
    by (simp add: try_wait_None_iff)
  from try_wait_timeout [of reg_env ph "\<lambda>p. calls p (hdr_call_id request)", OF all]
  show "snd (snd (snd (Phone_callback reg_env env request ph))) = length reg_env"
    by (simp add: Phone_callback_def)
  from all show "\<forall>p \<in> set (poll_states reg_env ph). calls p (hdr_call_id request) = None" .
qed

theorem callback_lookup_witness:
  "Phone_callback [idle_phone, register_example] [] (example_response ST_TRYING ''INVITE'')
       example_phone
     = (Inr (),
        example_phone\<lparr>calls := [''c1'' \<mapsto> Call_set_state TRYING example_call]\<rparr>, [], 2)
   \<and> Phone_callback [idle_phone, idle_phone] [] (example_response ST_TRYING ''INVITE'')
       example_phone
     = (Inl UnknownCallError, example_phone, [], 2)"
proof (intro conjI)
  have cid: "hdr_call_id (example_response ST_TRYING ''INVITE'') = ''c1''"
    by (simp add: example_response_def)
  have ce: "calls example_phone = Map.empty"
    by (simp add: example_phone_def)
  have ps: "poll_states [idle_phone, register_example] example_phone
      = [example_phone, example_phone, register_example example_phone]"
    by (simp add: idle_phone_def)
  have pre: "2 \<le> length [idle_phone, register_example]
      \<and> calls (poll_states [idle_phone, register_example] example_phone ! 2)
           (hdr_call_id (example_response ST_TRYING ''INVITE'')) = Some example_call
      \<and> (\<forall>j<2. calls (poll_states [idle_phone, register_example] example_phone ! j)
           (hdr_call_id (example_response ST_TRYING ''INVITE'')) = None)"
    by (auto simp: cid ce idle_phone_def register_example_def numeral_2_eq_2 less_Suc_eq)
  have route: "Phone_callback_route [] (example_response ST_TRYING ''INVITE'') example_call
      = (Inr (), Call_set_state TRYING example_call, [])"
    by (simp add: Phone_callback_route_def example_response_def Call_handle_trying_def)
  from callback_lookup [where k = 2 and reg_env = "[idle_phone, register_example]"
      and ph = example_phone and request = "example_response ST_TRYING ''INVITE''"
      and c = example_call and env = "[]", THEN conjunct1, THEN mp, OF pre, THEN conjunct1]
  show "Phone_callback [idle_phone, register_example] [] (example_response ST_TRYING ''INVITE'')
       example_phone
     = (Inr (),
        example_phone\<lparr>calls := [''c1'' \<mapsto> Call_set_state TRYING example_call]\<rparr>, [], 2)"
    by (simp add: route cid ce idle_phone_def register_example_def numeral_2_eq_2)
next
  have cid: "hdr_call_id (example_response ST_TRYING ''INVITE'') = ''c1''"
    by (simp add: example_response_def)
  have pre: "\<forall>p \<in> set (poll_states [idle_phone, idle_phone] example_phone).
      calls p (hdr_call_id (example_response ST_TRYING ''INVITE'')) = None"
    by (simp add: idle_phone_def example_phone_def)
  from callback_lookup [where reg_env = "[idle_phone, idle_phone]"
      and ph = example_phone and request = "example_response ST_TRYING ''INVITE''"
      and env = "[]", THEN conjunct2, THEN conjunct1, THEN mp, OF pre]
  show "Phone_callback [idle_phone, idle_phone] [] (example_response ST_TRYING ''INVITE'')
       example_phone
     = (Inl UnknownCallError, example_phone, [], 2)"
    by (simp add: idle_phone_def)
qed

text \<open>
  C9. When a \<open>_hangup\<close> has returned, a second \<open>_hangup\<close> on the call as the first one
  left it returns, leaves the call unchanged and performs no effect: no second teardown
  request is sent.
\<close>

theorem hangup_twice:
  assumes "Call_hangup env c = (Inr (), c', fx)"
  shows "Call_hangup env' c' = (Inr (), c', [])"
proof (cases "state c")
  case None
  with assms have "c' = c\<lparr>stop_reason := Some BYE_FROM_LOCAL\<rparr>"
    by (simp add: Call_hangup_def Call_stop_def)
  with None show ?thesis
    by (simp add: Call_hangup_def Call_stop_def)
next
  case (Some st)
  show ?thesis
  proof (cases "st = ENDED")
    case True
    with Some assms have "c' = c" by (simp add: Call_hangup_def)
    with True Some show ?thesis by (simp add: Call_hangup_def)
  next
    case False
    obtain r c1 n where tw:
      "try_wait state_is_ended env (c\<lparr>stop_reason := Some BYE_FROM_LOCAL\<rparr>) = (r, c1, n)"
      by (cases "try_wait state_is_ended env (c\<lparr>stop_reason := Some BYE_FROM_LOCAL\<rparr>)") auto
    from assms Some False tw have "r \<noteq> None \<and> c' = c1"
      by (auto simp: Call_hangup_def Call_stop_def split: option.splits if_splits)
    with try_wait_result [OF tw] have "state c' = Some ENDED"
      by (auto simp: state_is_ended_def split: if_splits)
    then show ?thesis by (simp add: Call_hangup_def)
  qed
qed

theorem hangup_twice_witness:
  "Call_hangup [idle_call, state_writer] answered_call
     = (Inr (), answered_call\<lparr>state := Some ENDED\<rparr>, [SendBye example_invite, MediaStop])
   \<and> Call_hangup [idle_call, state_writer] (answered_call\<lparr>state := Some ENDED\<rparr>)
     = (Inr (), answered_call\<lparr>state := Some ENDED\<rparr>, [])"
proof -
  have first: "Call_hangup [idle_call, state_writer] answered_call
     = (Inr (), answered_call\<lparr>state := Some ENDED\<rparr>, [SendBye example_invite, MediaStop])"
    by (simp add: Call_hangup_def Call_stop_def answered_call_fields state_is_ended_def
        idle_call_def state_writer_def)
  from first hangup_twice [OF first] show ?thesis by simp
qed

text \<open>
  C10. After \<open>__init__\<close> and \<open>_new_call\<close>, with no signaling event handled, the field
  \<open>state\<close> holds no \<open>CallState\<close> (it is \<open>None\<close>, not \<open>DIALING\<close>); \<open>_hangup\<close> on such a
  call records the stop reason \<open>BYE_FROM_LOCAL\<close>, sends nothing (no teardown request),
  returns, and leaves the state unset, so \<open>ENDED\<close> is not reached.
\<close>

theorem hangup_before_any_event:
  "fst (Call_new_call num invite (Call_init pbx codecs port ctype)) = Inr ()
   \<and> (let c = fst (snd (Call_new_call num invite (Call_init pbx codecs port ctype))) in
        state c = None
        \<and> Call_hangup env c = (Inr (), c\<lparr>stop_reason := Some BYE_FROM_LOCAL\<rparr>, [])
        \<and> state (fst (snd (Call_hangup env c))) = None)"
  by (simp add: Call_new_call_def Call_init_def Call_hangup_def Call_stop_def)

end
